theory Spec2Isabelle
  imports Complex_Main "HOL-Library.Finite_Map" "HOL-Library.Multiset"
begin

section \<open>Values\<close>

text \<open>
  A JSON tree, as \<^verbatim>\<open>JSON.parse\<close> returns it and \<^verbatim>\<open>JSON.stringify\<close> writes it. Numbers are
  the rationals the doubles denote; the handler only stores and compares them. An object
  is a finite map from its property names, so that equality of two trees is structural
  equality (the order of an object's properties does not count).
\<close>

datatype json =
    JNull
  | JBool bool
  | JNum rat
  | JStr string
  | JArr "json list"
  | JObj "(string, json) fmap"

text \<open>
  What a caller can hand to \<^verbatim>\<open>create\<close> and \<^verbatim>\<open>setIfVersion\<close> at run time: a JSON tree,
  \<^verbatim>\<open>undefined\<close>, or one of the values that JSON does not have.
\<close>

datatype jsvalue =
    Undefined
  | Json json
  | BigInt int
  | Symbol string
  | Function string

fun typeof :: "jsvalue \<Rightarrow> string" where
  "typeof Undefined = ''undefined''"
| "typeof (Json JNull) = ''object''"
| "typeof (Json (JBool b)) = ''boolean''"
| "typeof (Json (JNum n)) = ''number''"
| "typeof (Json (JStr s)) = ''string''"
| "typeof (Json (JArr xs)) = ''object''"
| "typeof (Json (JObj fs)) = ''object''"
| "typeof (BigInt i) = ''bigint''"
| "typeof (Symbol d) = ''symbol''"
| "typeof (Function f) = ''function''"

datatype error =
    TypeError string
  | ValueError string
  | WrappedError string string
  | Thrown string string

text \<open>The \<^verbatim>\<open>name\<close> property of an error object; \<open>Thrown name message\<close> is any other error.\<close>

fun error_name :: "error \<Rightarrow> string" where
  "error_name (TypeError m) = ''TypeError''"
| "error_name (ValueError m) = ''ValueError''"
| "error_name (WrappedError m debugId) = ''Error''"
| "error_name (Thrown n m) = n"

section \<open>Versions, patches and stored documents\<close>

record Version =
  major :: int
  minor :: int

text \<open>
  One operation of a JSON patch. The handler only looks at the number of operations.
\<close>

datatype operation =
    Add string json
  | Remove string
  | Replace string json

text \<open>
  \<^verbatim>\<open>{ version, ops, ...options }\<close>: the fields of the options object are spread into the
  patch; \<open>extra\<close> holds them (none when \<^verbatim>\<open>options\<close> is undefined).
\<close>

record Patch =
  version :: Version
  ops :: "operation list"
  extra :: "(string \<times> json) list"

text \<open>
  \<^verbatim>\<open>StoredDocument | Tombstone\<close>: what the handler writes under a key. A tombstone is
  the record without \<^verbatim>\<open>value\<close> (\<^verbatim>\<open>JSON.stringify\<close> leaves out a property that is undefined).
\<close>

record StoredDocument =
  version :: Version
  val :: "json option"
  patches :: "Patch list"
  updatedAt :: int

record VersionedMaybeObject =
  version :: Version
  val :: "json option"

definition NUM_PATCHES_TO_KEEP :: int where
  "NUM_PATCHES_TO_KEEP = 20"

definition DEFAULT_READ_BLOCK_TIME_MS :: int where
  "DEFAULT_READ_BLOCK_TIME_MS = 50000"

definition incrVersion :: "Version \<Rightarrow> int \<Rightarrow> Version" where
  "incrVersion v amount = \<lparr>major = major v, minor = minor v + amount\<rparr>"

definition decrVersion :: "Version \<Rightarrow> int \<Rightarrow> Version" where
  "decrVersion v amount = incrVersion v (- amount)"

definition isGreaterVersion :: "Version \<Rightarrow> Version \<Rightarrow> bool" where
  "isGreaterVersion a b \<longleftrightarrow> major a > major b \<or> major a = major b \<and> minor a > minor b"

definition allowedTypes :: "string set" where
  "allowedTypes = {''object'', ''boolean'', ''number'', ''string''}"

definition checkValue :: "jsvalue \<Rightarrow> error + unit" where
  "checkValue v =
     (if typeof v \<notin> allowedTypes
      then Inl (TypeError (''Non-JSONable value of type '' @ typeof v @ '' at top level''))
      else Inr ())"

definition isLiveValue :: "StoredDocument option \<Rightarrow> bool" where
  "isLiveValue maybe =
     (case maybe of None \<Rightarrow> False | Some d \<Rightarrow> StoredDocument.val d \<noteq> None)"

definition versionsMatch :: "StoredDocument option \<Rightarrow> Version \<Rightarrow> bool" where
  "versionsMatch prev v =
     (case prev of
        None \<Rightarrow> major v = 0 \<and> minor v = 0
      | Some d \<Rightarrow>
          major (StoredDocument.version d) = major v \<and> minor (StoredDocument.version d) = minor v)"

definition valueOrUndefined :: "StoredDocument option \<Rightarrow> json option" where
  "valueOrUndefined maybeHasValue =
     (case maybeHasValue of None \<Rightarrow> None | Some d \<Rightarrow> StoredDocument.val d)"

section \<open>Library functions the handler calls\<close>

text \<open>
  \<^verbatim>\<open>Array.prototype.slice(start, end)\<close> of the language: a negative index counts from the
  end, an index out of range is clamped, an absent one is the start or the end.
\<close>

definition slice :: "int option \<Rightarrow> int option \<Rightarrow> 'a list \<Rightarrow> 'a list" where
  "slice start fin xs =
     (let len = int (length xs);
          rel = (\<lambda>i. if i < 0 then max (len + i) 0 else min i len);
          k = (case start of None \<Rightarrow> 0 | Some i \<Rightarrow> rel i);
          e = (case fin of None \<Rightarrow> len | Some j \<Rightarrow> rel j)
      in take (nat (e - k)) (drop (nat k) xs))"

text \<open>
  Modelled from the spec: \<^verbatim>\<open>compare\<close> of the library fast-json-patch, called on
  \<^verbatim>\<open>{ root: prevValue }\<close> and \<^verbatim>\<open>{ root: value }\<close>. The spec's \<^verbatim>\<open>diff\<close> "returns an empty
  sequence iff values are structurally equal" and is "rooted under a synthetic object
  wrapper so that transitions to or from absence are expressible". The library's finer
  operations inside a changed value are not modelled: a change is one operation at
  \<^verbatim>\<open>/root\<close>.
\<close>

definition compare :: "json option \<Rightarrow> json option \<Rightarrow> operation list" where
  "compare prevValue nextValue =
     (if prevValue = nextValue then []
      else (case nextValue of
              None \<Rightarrow> [Remove ''/root'']
            | Some v \<Rightarrow>
                (case prevValue of
                   None \<Rightarrow> [Add ''/root'' v]
                 | Some u \<Rightarrow> [Replace ''/root'' v])))"

section \<open>The handler\<close>

text \<open>
  What the key-value engine answers to \<^verbatim>\<open>db.get(key)\<close> followed by \<^verbatim>\<open>JSON.parse\<close>: the
  key is not found, it holds a document the handler wrote, or the read (or the parse)
  throws an error with the given message.
\<close>

datatype slot =
    NotFound
  | Holds StoredDocument
  | Broken string

text \<open>
  The handler's state: the engine's content, and the \<^verbatim>\<open>'patch'\<close> events the emitter has
  sent so far, oldest first. The write lock makes the operations run one after the
  other; an operation is a function from the state to its result and the next state.
\<close>

record Handler =
  db :: "string \<Rightarrow> slot"
  emitted :: "(string \<times> Patch) list"

text \<open>
  \<^verbatim>\<open>hrnano\<close> is imported from \<^verbatim>\<open>./utils\<close>; the operations take its readings as an argument:
  \<open>hrnano i\<close> is what the call number \<open>i\<close> (from 0) of \<^verbatim>\<open>hrnano()\<close> within one operation
  returns.
\<close>

type_synonym clock = "nat \<Rightarrow> int"

definition getWithMeta :: "string \<Rightarrow> string \<Rightarrow> Handler \<Rightarrow> error + StoredDocument option" where
  "getWithMeta debugId key s =
     (case db s key of
        Holds d \<Rightarrow> Inr (Some d)
      | NotFound \<Rightarrow> Inr None
      | Broken msg \<Rightarrow> Inl (WrappedError (''['' @ debugId @ ''] '' @ msg) debugId))"

definition put ::
  "clock \<Rightarrow> string \<Rightarrow> StoredDocument option \<Rightarrow> json option \<Rightarrow> (string \<times> json) list option
     \<Rightarrow> Handler \<Rightarrow> Handler" where
  "put hrnano key prev v options s =
     (let prevValue = valueOrUndefined prev;
          fresh = (case prev of None \<Rightarrow> True | Some d \<Rightarrow> StoredDocument.val d = None);
          ver = (case prev of
                   None \<Rightarrow> \<lparr>major = hrnano 0, minor = 1\<rparr>
                 | Some d \<Rightarrow>
                     if StoredDocument.val d = None then \<lparr>major = hrnano 0, minor = 1\<rparr>
                     else incrVersion (StoredDocument.version d) 1);
          prevPatches = (case prev of None \<Rightarrow> [] | Some d \<Rightarrow> patches d);
          operations = compare prevValue v
      in if length operations > 0
         then
           (let patch = \<lparr>Patch.version = ver, ops = operations,
                          extra = (case options of None \<Rightarrow> [] | Some fs \<Rightarrow> fs)\<rparr>;
                doc = \<lparr>StoredDocument.version = ver, val = v,
                        patches = slice (Some (- NUM_PATCHES_TO_KEEP)) None prevPatches @ [patch],
                        updatedAt = hrnano (if fresh then 1 else 0)\<rparr>
            in s\<lparr>db := (db s)(key := Holds doc), emitted := emitted s @ [(key, patch)]\<rparr>)
         else s)"

definition get :: "string \<Rightarrow> string \<Rightarrow> Handler \<Rightarrow> error + json option" where
  "get debugId key s =
     (case getWithMeta debugId key s of
        Inl e \<Rightarrow> Inl e
      | Inr None \<Rightarrow> Inr None
      | Inr (Some d) \<Rightarrow> Inr (StoredDocument.val d))"

text \<open>\<^verbatim>\<open>pick(['value', 'version'], withMeta)\<close> copies the two properties that are there.\<close>

definition getWithVersion :: "string \<Rightarrow> string \<Rightarrow> Handler \<Rightarrow> error + VersionedMaybeObject" where
  "getWithVersion debugId key s =
     (case getWithMeta debugId key s of
        Inl e \<Rightarrow> Inl e
      | Inr None \<Rightarrow> Inr \<lparr>VersionedMaybeObject.version = \<lparr>major = 0, minor = 0\<rparr>, val = None\<rparr>
      | Inr (Some d) \<Rightarrow>
          Inr \<lparr>VersionedMaybeObject.version = StoredDocument.version d,
               val = StoredDocument.val d\<rparr>)"

definition startPolling :: "string \<Rightarrow> string \<Rightarrow> Handler \<Rightarrow> error + VersionedMaybeObject" where
  "startPolling debugId key s = getWithVersion debugId key s"

text \<open>
  A value that passed \<^verbatim>\<open>checkValue\<close>, or \<^verbatim>\<open>undefined\<close>, as \<^verbatim>\<open>put\<close> compares and stores it.
\<close>

fun stored :: "jsvalue \<Rightarrow> json option" where
  "stored (Json j) = Some j"
| "stored v = None"

definition create ::
  "clock \<Rightarrow> string \<Rightarrow> string \<Rightarrow> jsvalue \<Rightarrow> Handler \<Rightarrow> (error + bool) \<times> Handler" where
  "create hrnano debugId key v s =
     (case checkValue v of
        Inl e \<Rightarrow> (Inl e, s)
      | Inr u \<Rightarrow>
          (case getWithMeta debugId key s of
             Inl e \<Rightarrow> (Inl e, s)
           | Inr prev \<Rightarrow>
               if isLiveValue prev then (Inr False, s)
               else (Inr True, put hrnano key prev (stored v) None s)))"

definition remove :: "clock \<Rightarrow> string \<Rightarrow> string \<Rightarrow> Handler \<Rightarrow> (error + bool) \<times> Handler" where
  "remove hrnano debugId key s =
     (case getWithMeta debugId key s of
        Inl e \<Rightarrow> (Inl e, s)
      | Inr prev \<Rightarrow>
          if valueOrUndefined prev = None then (Inr False, s)
          else (Inr True, put hrnano key prev None None s))"

definition setIfVersion ::
  "clock \<Rightarrow> string \<Rightarrow> string \<Rightarrow> Version \<Rightarrow> jsvalue \<Rightarrow> (string \<times> json) list option \<Rightarrow> Handler
     \<Rightarrow> (error + bool) \<times> Handler" where
  "setIfVersion hrnano debugId key ver v options s =
     (case (if v \<noteq> Undefined then checkValue v else Inr ()) of
        Inl e \<Rightarrow> (Inl e, s)
      | Inr u \<Rightarrow>
          (case getWithMeta debugId key s of
             Inl e \<Rightarrow> (Inl e, s)
           | Inr prev \<Rightarrow>
               if \<not> versionsMatch prev ver then (Inr False, s)
               else (Inr True, put hrnano key prev (stored v) options s)))"

text \<open>
  A handler on an empty database, constructed without initial data.
\<close>

definition initial :: Handler where
  "initial = \<lparr>db = (\<lambda>k. NotFound), emitted = []\<rparr>"

text \<open>
  A client that writes the numbers 0, 1, 2, ... under the key \<^verbatim>\<open>k\<close>, each with
  \<^verbatim>\<open>setIfVersion\<close> at the version that \<^verbatim>\<open>getWithVersion\<close> has just given: \<open>commits n\<close> is the
  handler after the first \<open>n\<close> writes.
\<close>

definition currentVersion :: "string \<Rightarrow> Handler \<Rightarrow> Version" where
  "currentVersion key s =
     (case getWithVersion ''client'' key s of
        Inl e \<Rightarrow> \<lparr>major = 0, minor = 0\<rparr>
      | Inr r \<Rightarrow> VersionedMaybeObject.version r)"

fun commits :: "nat \<Rightarrow> Handler" where
  "commits 0 = initial"
| "commits (Suc n) =
     snd (setIfVersion (\<lambda>i. 1) ''client'' ''k'' (currentVersion ''k'' (commits n))
            (Json (JNum (of_nat n))) None (commits n))"

section \<open>Polling\<close>

type_synonym KeyedVersions = "(string \<times> Version) list"

type_synonym KeyedPatches = "(string \<times> Patch list) list"

text \<open>
  The listener that \<^verbatim>\<open>poll\<close> registers on the emitter: \<open>Some r\<close> when it calls
  \<^verbatim>\<open>resolve(r)\<close>. \<^verbatim>\<open>new Map(keysToVersions)\<close> keeps the last version given for a key.
\<close>

definition patchHandler :: "KeyedVersions \<Rightarrow> string \<Rightarrow> Patch \<Rightarrow> KeyedPatches option" where
  "patchHandler keysToVersions key patch =
     (case map_of (rev keysToVersions) key of
        None \<Rightarrow> None
      | Some subscribedVersion \<Rightarrow>
          if isGreaterVersion (Patch.version patch) subscribedVersion
          then Some [(key, [patch])] else None)"

text \<open>
  The value of the deferred promise after the listener has seen the events \<open>live\<close>, oldest
  first: a promise keeps the first value it is resolved with.
\<close>

fun resolved :: "KeyedVersions \<Rightarrow> (string \<times> Patch) list \<Rightarrow> KeyedPatches option" where
  "resolved keysToVersions [] = None"
| "resolved keysToVersions ((key, patch) # live) =
     (case patchHandler keysToVersions key patch of
        Some r \<Rightarrow> Some r
      | None \<Rightarrow> resolved keysToVersions live)"

text \<open>The scan of one subscribed key: the body of the \<^verbatim>\<open>map\<close> callback.\<close>

definition scanKey ::
  "string \<Rightarrow> Handler \<Rightarrow> string \<times> Version \<Rightarrow> error + (string \<times> Patch list) option" where
  "scanKey debugId s kv =
     (case getWithMeta debugId (fst kv) s of
        Inl e \<Rightarrow> Inl e
      | Inr None \<Rightarrow> Inr None
      | Inr (Some doc) \<Rightarrow>
          (let ps = filter (\<lambda>patch. isGreaterVersion (Patch.version patch) (snd kv)) (patches doc)
           in if length ps = 0 then Inr None else Inr (Some (fst kv, ps))))"

text \<open>\<^verbatim>\<open>Promise.all\<close>: every result in order, or the first rejection.\<close>

fun promiseAll :: "(error + 'a) list \<Rightarrow> error + 'a list" where
  "promiseAll [] = Inr []"
| "promiseAll (Inl e # rs) = Inl e"
| "promiseAll (Inr x # rs) = (case promiseAll rs of Inl e \<Rightarrow> Inl e | Inr xs \<Rightarrow> Inr (x # xs))"

text \<open>
  \<^verbatim>\<open>poll\<close>. Its wait is \<^verbatim>\<open>withTimeout(promise, opts.readBlockTimeMs || 50000)\<close>, with
  \<^verbatim>\<open>withTimeout\<close> imported from \<^verbatim>\<open>./utils\<close>: it gives the promise's value when the promise is
  resolved before the time is over and is rejected otherwise. The model takes what
  happens during the wait as arguments: \<open>live\<close> are the events the emitter sends while the
  listener is registered and the timer runs, and \<open>rejection\<close> is the error the wait is
  rejected with when the listener has resolved nothing.
\<close>

definition poll ::
  "string \<Rightarrow> KeyedVersions \<Rightarrow> (string \<times> Patch) list \<Rightarrow> error \<Rightarrow> Handler \<Rightarrow> error + KeyedPatches" where
  "poll debugId keysToVersions live rejection s =
     (case promiseAll (map (scanKey debugId s) keysToVersions) of
        Inl e \<Rightarrow> Inl e
      | Inr keyedPatchesOrUndef \<Rightarrow>
          (let keyedPatches = List.map_filter id keyedPatchesOrUndef
           in if length keyedPatches > 0 then Inr keyedPatches
              else (case resolved keysToVersions live of
                      Some r \<Rightarrow> Inr r
                    | None \<Rightarrow>
                        if error_name rejection = ''TimeoutError'' then Inr []
                        else Inl rejection)))"

section \<open>Queries\<close>

text \<open>An element of a path: a property name or a number.\<close>

datatype PathElem = Name string | Index nat

text \<open>
  \<^verbatim>\<open>String(i)\<close>, the property key that a number stands for: its decimal digits.
\<close>

fun decimal :: "nat \<Rightarrow> string" where
  "decimal n =
     (if n < 10 then [''0123456789'' ! n]
      else decimal (n div 10) @ [''0123456789'' ! (n mod 10)])"

declare decimal.simps [simp del]

fun keyOf :: "PathElem \<Rightarrow> string" where
  "keyOf (Name n) = n"
| "keyOf (Index i) = decimal i"

text \<open>
  What a path reads in a document: \<^verbatim>\<open>undefined\<close>, a JSON tree, or a value that is not a
  JSON tree (a method or a prototype that a value inherits), of which the model keeps the
  \<^verbatim>\<open>typeof\<close>.
\<close>

datatype reading = Undef | Val json | Foreign string

fun typeofReading :: "reading \<Rightarrow> string" where
  "typeofReading Undef = ''undefined''"
| "typeofReading (Val j) = typeof (Json j)"
| "typeofReading (Foreign t) = t"

record Document =
  key :: string
  val :: json

text \<open>The object \<^verbatim>\<open>{ key, value }\<close> that the paths of a query are followed in.\<close>

definition docObject :: "Document \<Rightarrow> json" where
  "docObject d = JObj (fmap_of_list [(''key'', JStr (key d)), (''value'', Document.val d)])"

text \<open>
  What the language leaves to its engine and the model takes as an argument:
  \<^item> \<open>inherited x k\<close> is \<^verbatim>\<open>x[k]\<close> where \<open>k\<close> is not an own property of the JSON tree \<open>x\<close>, or
    where \<open>x\<close> is not a JSON tree: what the prototypes of \<open>x\<close> hold under \<open>k\<close>;
  \<^item> \<open>relational x y\<close> is the abstract relational comparison \<^verbatim>\<open>x < y\<close> (\<open>None\<close> when it is
    undefined) where it converts a string to a number, or an object to a primitive;
  \<^item> \<open>regExpTest pattern caseInsensitive s\<close> is \<^verbatim>\<open>new RegExp(pattern, flag).test(s)\<close>, which
    throws when the pattern is not a regular expression;
  \<^item> \<open>arraySort cmp xs\<close> is \<^verbatim>\<open>Array.prototype.sort\<close>: the elements of \<open>xs\<close> as
    \<^verbatim>\<open>xs.sort(cmp)\<close> leaves them.
\<close>

record Runtime =
  inherited :: "reading \<Rightarrow> string \<Rightarrow> reading"
  relational :: "reading \<Rightarrow> reading \<Rightarrow> bool option"
  regExpTest :: "string \<Rightarrow> bool \<Rightarrow> string \<Rightarrow> error + bool"
  arraySort :: "(Document \<Rightarrow> Document \<Rightarrow> int) \<Rightarrow> Document list \<Rightarrow> Document list"

text \<open>
  The own properties of a JSON tree: the properties of an object; the elements of an
  array and the characters of a string (its code units), each under the decimal digits
  of its index, and their \<^verbatim>\<open>length\<close>. A number, a boolean and null have none.
\<close>

fun ownProp :: "json \<Rightarrow> string \<Rightarrow> json option" where
  "ownProp (JObj fs) k = fmlookup fs k"
| "ownProp (JArr xs) k =
     (if k = ''length'' then Some (JNum (of_nat (length xs)))
      else (case List.find (\<lambda>i. decimal i = k) [0..<length xs] of
              None \<Rightarrow> None
            | Some i \<Rightarrow> Some (xs ! i)))"
| "ownProp (JStr s) k =
     (if k = ''length'' then Some (JNum (of_nat (length s)))
      else (case List.find (\<lambda>i. decimal i = k) [0..<length s] of
              None \<Rightarrow> None
            | Some i \<Rightarrow> Some (JStr [s ! i])))"
| "ownProp v k = None"

text \<open>\<^verbatim>\<open>val[p]\<close> on a JSON tree: the own property, or else what the tree inherits.\<close>

definition getProp :: "Runtime \<Rightarrow> json \<Rightarrow> PathElem \<Rightarrow> reading" where
  "getProp R v p =
     (case ownProp v (keyOf p) of
        Some x \<Rightarrow> Val x
      | None \<Rightarrow> inherited R (Val v) (keyOf p))"

text \<open>
  \<^verbatim>\<open>path\<close> of the library ramda: it follows the path while the value is neither null nor
  undefined, and gives undefined otherwise.
\<close>

fun path :: "Runtime \<Rightarrow> PathElem list \<Rightarrow> reading \<Rightarrow> reading" where
  "path R [] x = x"
| "path R (p # ps) Undef = Undef"
| "path R (p # ps) (Val JNull) = Undef"
| "path R (p # ps) (Val v) = path R ps (getProp R v p)"
| "path R (p # ps) (Foreign t) = path R ps (inherited R (Foreign t) (keyOf p))"

fun strLess :: "string \<Rightarrow> string \<Rightarrow> bool" where
  "strLess [] [] = False"
| "strLess [] (y # ys) = True"
| "strLess (x # xs) [] = False"
| "strLess (x # xs) (y # ys) =
     (if (of_char x :: nat) < of_char y then True
      else if (of_char y :: nat) < of_char x then False
      else strLess xs ys)"

text \<open>
  The abstract relational comparison \<^verbatim>\<open>x < y\<close>: undefined (\<open>None\<close>) when an operand is
  \<^verbatim>\<open>undefined\<close>; two strings by their code units; numbers, booleans and null as numbers;
  the engine's conversions otherwise.
\<close>

fun toNumber :: "json \<Rightarrow> rat option" where
  "toNumber (JNum n) = Some n"
| "toNumber (JBool b) = Some (if b then 1 else 0)"
| "toNumber JNull = Some 0"
| "toNumber v = None"

fun lessThanDefined :: "Runtime \<Rightarrow> json \<Rightarrow> json \<Rightarrow> bool option" where
  "lessThanDefined R (JStr a) (JStr b) = Some (strLess a b)"
| "lessThanDefined R a b =
     (case toNumber a of
        None \<Rightarrow> relational R (Val a) (Val b)
      | Some m \<Rightarrow>
          (case toNumber b of
             None \<Rightarrow> relational R (Val a) (Val b)
           | Some n \<Rightarrow> Some (m < n)))"

fun lessThan' :: "Runtime \<Rightarrow> reading \<Rightarrow> reading \<Rightarrow> bool option" where
  "lessThan' R Undef y = None"
| "lessThan' R x Undef = None"
| "lessThan' R (Val a) (Val b) = lessThanDefined R a b"
| "lessThan' R x y = relational R x y"

definition lt :: "Runtime \<Rightarrow> reading \<Rightarrow> reading \<Rightarrow> bool" where
  "lt R x y \<longleftrightarrow> lessThan' R x y = Some True"

definition gt :: "Runtime \<Rightarrow> reading \<Rightarrow> reading \<Rightarrow> bool" where
  "gt R x y \<longleftrightarrow> lessThan' R y x = Some True"

definition lte :: "Runtime \<Rightarrow> reading \<Rightarrow> reading \<Rightarrow> bool" where
  "lte R x y \<longleftrightarrow> lessThan' R y x = Some False"

definition gte :: "Runtime \<Rightarrow> reading \<Rightarrow> reading \<Rightarrow> bool" where
  "gte R x y \<longleftrightarrow> lessThan' R x y = Some False"

text \<open>
  \<^verbatim>\<open>x === y\<close> where \<open>x\<close> is read in a document and \<open>y\<close> is the operand of a filter, a JSON
  tree. Two primitive values are identical when they have the same type and value. An
  object or an array is identical to itself only, and what is read in the document is no
  object of the query: \<^verbatim>\<open>find\<close> parses every document from its stored text.
\<close>

fun strictEquals :: "reading \<Rightarrow> json \<Rightarrow> bool" where
  "strictEquals Undef y = False"
| "strictEquals (Foreign t) y = False"
| "strictEquals (Val (JArr xs)) y = False"
| "strictEquals (Val (JObj fs)) y = False"
| "strictEquals (Val a) y = (a = y)"

text \<open>
  A filter, by its \<^verbatim>\<open>operator\<close>. \<open>Op_other\<close> is an operator that \<^verbatim>\<open>match\<close> has no case for.
\<close>

datatype Filter =
    Op_and "Filter list"
  | Op_or "Filter list"
  | Op_not Filter
  | Op_eq "PathElem list" json
  | Op_ne "PathElem list" json
  | Op_gt "PathElem list" json
  | Op_gte "PathElem list" json
  | Op_lt "PathElem list" json
  | Op_lte "PathElem list" json
  | Op_exists "PathElem list"
  | Op_isNull "PathElem list"
  | Op_matches "PathElem list" string bool
  | Op_startsWith "PathElem list" string
  | Op_other string "PathElem list"

fun operator :: "Filter \<Rightarrow> string" where
  "operator (Op_and fs) = ''and''"
| "operator (Op_or fs) = ''or''"
| "operator (Op_not f) = ''not''"
| "operator (Op_eq p v) = ''eq''"
| "operator (Op_ne p v) = ''ne''"
| "operator (Op_gt p v) = ''gt''"
| "operator (Op_gte p v) = ''gte''"
| "operator (Op_lt p v) = ''lt''"
| "operator (Op_lte p v) = ''lte''"
| "operator (Op_exists p) = ''exists''"
| "operator (Op_isNull p) = ''isNull''"
| "operator (Op_matches p pat ci) = ''matches''"
| "operator (Op_startsWith p v) = ''startsWith''"
| "operator (Op_other name p) = name"

text \<open>
  \<^verbatim>\<open>match\<close> gives \<open>Inr None\<close> where the source falls out of its second \<^verbatim>\<open>switch\<close> and
  returns undefined; \<^verbatim>\<open>wrappedMatch\<close> throws then. \<open>every\<close> and \<open>some\<close> are
  \<^verbatim>\<open>filters.every\<close> and \<^verbatim>\<open>filters.some\<close> with \<^verbatim>\<open>wrappedMatch\<close> as their callback: they
  stop at the first filter that decides, or that throws.
\<close>

fun match :: "Runtime \<Rightarrow> Document \<Rightarrow> Filter \<Rightarrow> error + bool option"
  and wrappedMatch :: "Runtime \<Rightarrow> Document \<Rightarrow> Filter \<Rightarrow> error + bool"
  and every :: "Runtime \<Rightarrow> Document \<Rightarrow> Filter list \<Rightarrow> error + bool"
  and some :: "Runtime \<Rightarrow> Document \<Rightarrow> Filter list \<Rightarrow> error + bool"
where
  "match R doc (Op_and fs) =
     (case every R doc fs of Inl e \<Rightarrow> Inl e | Inr b \<Rightarrow> Inr (Some b))"
| "match R doc (Op_or fs) =
     (case some R doc fs of Inl e \<Rightarrow> Inl e | Inr b \<Rightarrow> Inr (Some b))"
| "match R doc (Op_not f) =
     (case wrappedMatch R doc f of Inl e \<Rightarrow> Inl e | Inr b \<Rightarrow> Inr (Some (\<not> b)))"
| "match R doc (Op_eq p v) = Inr (Some (strictEquals (path R p (Val (docObject doc))) v))"
| "match R doc (Op_ne p v) = Inr (Some (\<not> strictEquals (path R p (Val (docObject doc))) v))"
| "match R doc (Op_gt p v) =
     (let x = path R p (Val (docObject doc))
      in Inr (Some (typeofReading x = typeofReading (Val v) \<and> gt R x (Val v))))"
| "match R doc (Op_gte p v) =
     (let x = path R p (Val (docObject doc))
      in Inr (Some (typeofReading x = typeofReading (Val v) \<and> gte R x (Val v))))"
| "match R doc (Op_lt p v) =
     (let x = path R p (Val (docObject doc))
      in Inr (Some (typeofReading x = typeofReading (Val v) \<and> lt R x (Val v))))"
| "match R doc (Op_lte p v) =
     (let x = path R p (Val (docObject doc))
      in Inr (Some (typeofReading x = typeofReading (Val v) \<and> lte R x (Val v))))"
| "match R doc (Op_exists p) = Inr (Some (path R p (Val (docObject doc)) \<noteq> Undef))"
| "match R doc (Op_isNull p) = Inr (Some (path R p (Val (docObject doc)) = Val JNull))"
| "match R doc (Op_matches p pat ci) =
     (case path R p (Val (docObject doc)) of
        Val (JStr s) \<Rightarrow>
          (case regExpTest R pat ci s of Inl e \<Rightarrow> Inl e | Inr b \<Rightarrow> Inr (Some b))
      | _ \<Rightarrow> Inr (Some False))"
| "match R doc (Op_startsWith p v) =
     (case path R p (Val (docObject doc)) of
        Val (JStr s) \<Rightarrow> Inr (Some (take (length v) s = v))
      | _ \<Rightarrow> Inr (Some False))"
| "match R doc (Op_other name p) = Inr None"
| "wrappedMatch R doc f =
     (case match R doc f of
        Inl e \<Rightarrow> Inl e
      | Inr None \<Rightarrow> Inl (ValueError (''Got an unsupported filter operator: '' @ operator f))
      | Inr (Some isMatch) \<Rightarrow> Inr isMatch)"
| "every R doc [] = Inr True"
| "every R doc (f # fs) =
     (case wrappedMatch R doc f of
        Inl e \<Rightarrow> Inl e
      | Inr b \<Rightarrow> if b then every R doc fs else Inr False)"
| "some R doc [] = Inr False"
| "some R doc (f # fs) =
     (case wrappedMatch R doc f of
        Inl e \<Rightarrow> Inl e
      | Inr b \<Rightarrow> if b then Inr True else some R doc fs)"

datatype Direction = ASC | DESC

record Order =
  path' :: "PathElem list"
  direction :: Direction

text \<open>
  \<^verbatim>\<open>ascend\<close> and \<^verbatim>\<open>descend\<close> of ramda: \<^verbatim>\<open>aa < bb ? -1 : aa > bb ? 1 : 0\<close> and its mirror,
  on what \<open>fn\<close> reads in the two documents.
\<close>

definition ascend ::
  "Runtime \<Rightarrow> (Document \<Rightarrow> reading) \<Rightarrow> Document \<Rightarrow> Document \<Rightarrow> int" where
  "ascend R fn a b =
     (let aa = fn a; bb = fn b
      in if lt R aa bb then - 1 else if gt R aa bb then 1 else 0)"

definition descend ::
  "Runtime \<Rightarrow> (Document \<Rightarrow> reading) \<Rightarrow> Document \<Rightarrow> Document \<Rightarrow> int" where
  "descend R fn a b =
     (let aa = fn a; bb = fn b
      in if gt R aa bb then - 1 else if lt R aa bb then 1 else 0)"

definition buildComparator :: "Runtime \<Rightarrow> Order \<Rightarrow> Document \<Rightarrow> Document \<Rightarrow> int" where
  "buildComparator R ord =
     (if direction ord = ASC
      then ascend R (\<lambda>d. path R (path' ord) (Val (docObject d)))
      else descend R (\<lambda>d. path R (path' ord) (Val (docObject d))))"

text \<open>
  The comparator that \<^verbatim>\<open>sortWith\<close> of ramda hands to \<^verbatim>\<open>sort\<close>: it calls the functions of the
  list in turn while the result is 0.
\<close>

fun firstNonZero :: "('a \<Rightarrow> 'a \<Rightarrow> int) list \<Rightarrow> 'a \<Rightarrow> 'a \<Rightarrow> int" where
  "firstNonZero [] a b = 0"
| "firstNonZero (f # fns) a b = (let r = f a b in if r = 0 then firstNonZero fns a b else r)"

text \<open>\<^verbatim>\<open>sortWith\<close> of ramda: a copy of the list, sorted by the engine with that comparator.\<close>

definition sortWith ::
  "Runtime \<Rightarrow> (Document \<Rightarrow> Document \<Rightarrow> int) list \<Rightarrow> Document list \<Rightarrow> Document list" where
  "sortWith R fns xs = arraySort R (firstNonZero fns) xs"

record Query =
  filter' :: Filter
  limit :: "int option"
  skip :: "int option"
  orderBy :: "Order list option"

text \<open>
  How the promise that \<^verbatim>\<open>find\<close> returns ends: resolved with the documents; rejected with
  an error of the iterator; or never settled, when the callback of the iterator throws
  (\<^verbatim>\<open>wrappedMatch\<close> on an operator it does not know, or the regular expression): nothing
  catches that error and nothing calls \<^verbatim>\<open>resolve\<close> or \<^verbatim>\<open>reject\<close> afterwards.
\<close>

datatype 'a promise = Resolved 'a | Rejected error | Pending error

text \<open>
  The loop of \<^verbatim>\<open>find\<close> over what the engine's iterator hands to the callback: an error, or
  a row, a key with the document parsed from its text. The iteration is complete at a
  row whose key is falsy, which the empty string is. A tombstone is passed over.
\<close>

fun scan ::
  "Runtime \<Rightarrow> Filter \<Rightarrow> (error + string \<times> StoredDocument) list \<Rightarrow> Document list promise" where
  "scan R f [] = Resolved []"
| "scan R f (Inl err # rows) = Rejected err"
| "scan R f (Inr (k, row) # rows) =
     (if k = [] then Resolved []
      else
        (case StoredDocument.val row of
           None \<Rightarrow> scan R f rows
         | Some v \<Rightarrow>
             (case wrappedMatch R \<lparr>key = k, val = v\<rparr> f of
                Inl e \<Rightarrow> Pending e
              | Inr isMatch \<Rightarrow>
                  if isMatch
                  then (case scan R f rows of
                          Resolved results \<Rightarrow> Resolved (\<lparr>key = k, val = v\<rparr> # results)
                        | Rejected e \<Rightarrow> Rejected e
                        | Pending e \<Rightarrow> Pending e)
                  else scan R f rows)))"

definition find ::
  "Runtime \<Rightarrow> (error + string \<times> StoredDocument) list \<Rightarrow> Query \<Rightarrow> Document list promise" where
  "find R rows q =
     (case scan R (filter' q) rows of
        Rejected e \<Rightarrow> Rejected e
      | Pending e \<Rightarrow> Pending e
      | Resolved results \<Rightarrow>
          (let sortedResults =
                 (case orderBy q of
                    None \<Rightarrow> results
                  | Some os \<Rightarrow> sortWith R (map (buildComparator R) os) results)
           in Resolved (slice (skip q)
                          (case limit q of
                             None \<Rightarrow> None
                           | Some l \<Rightarrow> Some ((case skip q of None \<Rightarrow> 0 | Some n \<Rightarrow> n) + l))
                          sortedResults)))"

text \<open>
  The values that \<^verbatim>\<open>===\<close> compares by type and value: all but objects and arrays.
\<close>

fun isPrimitive :: "json \<Rightarrow> bool" where
  "isPrimitive (JArr xs) = False"
| "isPrimitive (JObj fs) = False"
| "isPrimitive v = True"




text \<open>
  An engine used as an example. Its sort is the insertion sort that places an element
  before the first one of those after it that the comparator does not put before it, a
  stable sort; it never has to convert, knows no regular expression and no inherited
  property.
\<close>

fun insertBy :: "('a \<Rightarrow> 'a \<Rightarrow> int) \<Rightarrow> 'a \<Rightarrow> 'a list \<Rightarrow> 'a list" where
  "insertBy cmp x [] = [x]"
| "insertBy cmp x (y # ys) = (if cmp x y \<le> 0 then x # y # ys else y # insertBy cmp x ys)"

fun insertionSort :: "('a \<Rightarrow> 'a \<Rightarrow> int) \<Rightarrow> 'a list \<Rightarrow> 'a list" where
  "insertionSort cmp [] = []"
| "insertionSort cmp (x # xs) = insertBy cmp x (insertionSort cmp xs)"

definition plainRuntime :: Runtime where
  "plainRuntime =
     \<lparr>inherited = (\<lambda>x k. Undef), relational = (\<lambda>a b. None),
      regExpTest = (\<lambda>pat ci s. Inr False), arraySort = insertionSort\<rparr>"

text \<open>
  Documents used as examples: \<open>tagged\<close> is \<^verbatim>\<open>{ key: 'a', value: { tags: [1] } }\<close>,
  \<open>person k n\<close> is \<^verbatim>\<open>{ key: k, value: { age: n } }\<close> and \<open>nameless k\<close> is
  \<^verbatim>\<open>{ key: k, value: { name: 'x' } }\<close>; \<open>row d\<close> is the row of the engine that \<^verbatim>\<open>find\<close> reads
  the document \<open>d\<close> from. The query \<open>byAge dir\<close> takes every document, ordered by
  \<^verbatim>\<open>value.age\<close> in the direction \<open>dir\<close>.
\<close>

definition tagged :: Document where
  "tagged = \<lparr>key = ''a'', val = JObj (fmap_of_list [(''tags'', JArr [JNum 1])])\<rparr>"



definition row :: "Document \<Rightarrow> error + string \<times> StoredDocument" where
  "row d =
     Inr (key d, \<lparr>StoredDocument.version = \<lparr>major = 1, minor = 1\<rparr>, val = Some (Document.val d),
                  patches = [], updatedAt = 1\<rparr>)"





section \<open>States\<close>

text \<open>
  The states that a handler on an empty database goes through: whatever its callers
  ask for, in any order, with any readings of the clock.
\<close>

inductive reachable :: "Handler \<Rightarrow> bool" where
  reachable_initial: "reachable initial"
| reachable_create: "reachable s \<Longrightarrow> reachable (snd (create hrnano debugId k v s))"
| reachable_remove: "reachable s \<Longrightarrow> reachable (snd (remove hrnano debugId k s))"
| reachable_setIfVersion:
    "reachable s \<Longrightarrow> reachable (snd (setIfVersion hrnano debugId k V v options s))"

text \<open>What holds of every document that \<^verbatim>\<open>put\<close> has written.\<close>

definition wellFormed :: "StoredDocument \<Rightarrow> bool" where
  "wellFormed d \<longleftrightarrow>
     1 \<le> minor (StoredDocument.version d) \<and> length (patches d) \<le> 21 \<and> patches d \<noteq> [] \<and>
     Patch.version (last (patches d)) = StoredDocument.version d"

text \<open>
  Two states used as examples: \<open>liveAt\<close> is the handler after \<^verbatim>\<open>create('a', 1)\<close> at clock
  reading 5, where the key \<^verbatim>\<open>a\<close> holds the live document \<open>liveDoc\<close> at version (5, 1);
  \<open>tombstoned\<close> is that handler after \<^verbatim>\<open>remove('a')\<close> at clock reading 6, where the key
  holds the tombstone \<open>tombDoc\<close> at version (5, 2).
\<close>

definition liveAt :: Handler where
  "liveAt = snd (create (\<lambda>i. 5) ''t'' ''a'' (Json (JNum 1)) initial)"

definition tombstoned :: Handler where
  "tombstoned = snd (remove (\<lambda>i. 6) ''t'' ''a'' liveAt)"

definition created :: Patch where
  "created = \<lparr>Patch.version = \<lparr>major = 5, minor = 1\<rparr>, ops = [Add ''/root'' (JNum 1)], extra = []\<rparr>"

definition removed :: Patch where
  "removed = \<lparr>Patch.version = \<lparr>major = 5, minor = 2\<rparr>, ops = [Remove ''/root''], extra = []\<rparr>"

definition liveDoc :: StoredDocument where
  "liveDoc = \<lparr>StoredDocument.version = \<lparr>major = 5, minor = 1\<rparr>, val = Some (JNum 1),
               patches = [created], updatedAt = 5\<rparr>"

definition tombDoc :: StoredDocument where
  "tombDoc = \<lparr>StoredDocument.version = \<lparr>major = 5, minor = 2\<rparr>, val = None,
               patches = [created, removed], updatedAt = 6\<rparr>"

section \<open>Properties\<close>

subsection \<open>Auxiliary facts\<close>

lemma length_slice_last:
  "length (slice (Some (- NUM_PATCHES_TO_KEEP)) None xs) = min 20 (length xs)"
  by (simp add: slice_def NUM_PATCHES_TO_KEEP_def Let_def)

lemma compare_empty_iff: "compare a b = [] \<longleftrightarrow> a = b"
  by (simp add: compare_def split: option.splits)

lemma allowed_is_Json: "typeof v \<in> allowedTypes \<Longrightarrow> \<exists>j. v = Json j"
  by (cases v) (simp_all add: allowedTypes_def)

lemma checkValue_Json: "checkValue (Json j) = Inr ()"
  by (cases j) (simp_all add: checkValue_def allowedTypes_def)

lemma checkValue_allowed: "typeof v \<in> allowedTypes \<Longrightarrow> checkValue v = Inr ()"
  by (simp add: checkValue_def)

lemma put_unchanged: "valueOrUndefined prev = v \<Longrightarrow> put hrnano k prev v options s = s"
  by (simp add: put_def Let_def compare_empty_iff)

lemma put_db_changed:
  assumes "valueOrUndefined prev \<noteq> v"
  shows "\<exists>d'. db (put hrnano k prev v options s) k = Holds d'
    \<and> StoredDocument.version d' =
        (if isLiveValue prev then incrVersion (StoredDocument.version (the prev)) 1
         else \<lparr>major = hrnano 0, minor = 1\<rparr>)
    \<and> StoredDocument.val d' = v
    \<and> length (patches d') = min 20 (length (case prev of None \<Rightarrow> [] | Some d \<Rightarrow> patches d)) + 1"
  using assms
  by (cases prev) (simp_all add: put_def Let_def compare_empty_iff isLiveValue_def length_slice_last)

lemma setIfVersion_checked:
  assumes "v = Undefined \<or> typeof v \<in> allowedTypes" and "getWithMeta debugId k s = Inr prev"
  shows "setIfVersion hrnano debugId k V v options s =
    (if versionsMatch prev V then (Inr True, put hrnano k prev (stored v) options s)
     else (Inr False, s))"
  using assms by (auto simp add: setIfVersion_def checkValue_allowed)

lemma liveAt_eq:
  "liveAt = \<lparr>db = (\<lambda>k. NotFound)(''a'' := Holds liveDoc), emitted = [(''a'', created)]\<rparr>"
  by (simp add: liveAt_def create_def initial_def checkValue_Json getWithMeta_def
      isLiveValue_def put_def Let_def valueOrUndefined_def compare_def slice_def
      NUM_PATCHES_TO_KEEP_def liveDoc_def created_def)

lemma tombstoned_eq:
  "tombstoned =
     \<lparr>db = (\<lambda>k. NotFound)(''a'' := Holds tombDoc), emitted = [(''a'', created), (''a'', removed)]\<rparr>"
  by (simp add: tombstoned_def liveAt_eq remove_def getWithMeta_def put_def Let_def
      valueOrUndefined_def compare_def slice_def incrVersion_def NUM_PATCHES_TO_KEEP_def
      liveDoc_def tombDoc_def created_def removed_def)

lemma put_wellFormed:
  assumes "\<forall>d. prev = Some d \<longrightarrow> wellFormed d" and "\<forall>k d. db s k = Holds d \<longrightarrow> wellFormed d"
    and "db (put hrnano k prev v options s) k' = Holds d'"
  shows "wellFormed d'"
proof (cases "valueOrUndefined prev = v")
  case True
  then show ?thesis using assms(2,3) by (simp add: put_unchanged)
next
  case False
  show ?thesis
  proof (cases "k' = k")
    case True
    then show ?thesis using assms(1,3) False
      by (cases prev)
        (auto simp add: put_def Let_def compare_empty_iff wellFormed_def length_slice_last incrVersion_def)
  next
    case False
    then show ?thesis using assms(2,3) by (auto simp add: put_def Let_def split: if_splits)
  qed
qed

lemma create_is_put:
  "snd (create hrnano debugId k v s) = s \<or>
   (\<exists>prev w. getWithMeta debugId k s = Inr prev \<and> snd (create hrnano debugId k v s) = put hrnano k prev w None s)"
  by (auto simp add: create_def split: sum.splits)

lemma remove_is_put:
  "snd (remove hrnano debugId k s) = s \<or>
   (\<exists>prev w. getWithMeta debugId k s = Inr prev \<and> snd (remove hrnano debugId k s) = put hrnano k prev w None s)"
  by (auto simp add: remove_def split: sum.splits)

lemma setIfVersion_is_put:
  "snd (setIfVersion hrnano debugId k V v options s) = s \<or>
   (\<exists>prev w. getWithMeta debugId k s = Inr prev \<and>
      snd (setIfVersion hrnano debugId k V v options s) = put hrnano k prev w options s)"
  by (auto simp add: setIfVersion_def split: sum.splits)

lemma step_wellFormed:
  assumes "\<And>k d. db s k = Holds d \<Longrightarrow> wellFormed d"
    and "s' = s \<or> (\<exists>prev w. getWithMeta debugId k s = Inr prev \<and> s' = put hrnano k prev w options s)"
    and "db s' k' = Holds d'"
  shows "wellFormed d'"
proof -
  from assms(2) show ?thesis
  proof
    assume "s' = s"
    then show ?thesis using assms(1,3) by simp
  next
    assume "\<exists>prev w. getWithMeta debugId k s = Inr prev \<and> s' = put hrnano k prev w options s"
    then obtain prev w where g: "getWithMeta debugId k s = Inr prev"
      and p: "s' = put hrnano k prev w options s" by blast
    have "\<forall>d. prev = Some d \<longrightarrow> wellFormed d"
      using g assms(1)[of k] by (auto simp add: getWithMeta_def split: slot.splits)
    moreover have "\<forall>k d. db s k = Holds d \<longrightarrow> wellFormed d" using assms(1) by blast
    ultimately show ?thesis using put_wellFormed assms(3) p by blast
  qed
qed

lemma reachable_wellFormed: "reachable s \<Longrightarrow> db s k' = Holds d' \<Longrightarrow> wellFormed d'"
proof (induction arbitrary: k' d' rule: reachable.induct)
  case reachable_initial
  then show ?case by (simp add: initial_def)
next
  case (reachable_create s hrnano debugId k v)
  show ?case
    using step_wellFormed[OF reachable_create.IH create_is_put reachable_create.prems] .
next
  case (reachable_remove s hrnano debugId k)
  show ?case
    using step_wellFormed[OF reachable_remove.IH remove_is_put reachable_remove.prems] .
next
  case (reachable_setIfVersion s hrnano debugId k V v options)
  show ?case
    using step_wellFormed[OF reachable_setIfVersion.IH setIfVersion_is_put reachable_setIfVersion.prems] .
qed

lemma setIfVersion_Json_Holds:
  assumes "db s k = Holds d" and "versionsMatch (Some d) V"
  shows "setIfVersion h debugId k V (Json j) options s =
           (Inr True, put h k (Some d) (Some j) options s)"
  using assms by (simp add: setIfVersion_def checkValue_Json getWithMeta_def)

lemma setIfVersion_Json_NotFound:
  assumes "db s k = NotFound"
  shows "setIfVersion h debugId k \<lparr>major = 0, minor = 0\<rparr> (Json j) options s =
           (Inr True, put h k None (Some j) options s)"
  using assms by (simp add: setIfVersion_def checkValue_Json getWithMeta_def versionsMatch_def)

lemma currentVersion_Holds:
  "db s k = Holds d \<Longrightarrow> currentVersion k s = StoredDocument.version d"
  by (simp add: currentVersion_def getWithVersion_def getWithMeta_def)

lemma currentVersion_NotFound:
  "db s k = NotFound \<Longrightarrow> currentVersion k s = \<lparr>major = 0, minor = 0\<rparr>"
  by (simp add: currentVersion_def getWithVersion_def getWithMeta_def)

lemma commits_inv:
  "\<exists>d. db (commits (Suc n)) ''k'' = Holds d \<and> StoredDocument.val d = Some (JNum (of_nat n))
       \<and> length (patches d) = min (Suc n) 21"
proof (induction n)
  case 0
  have nf: "db initial ''k'' = NotFound" by (simp add: initial_def)
  have ne: "valueOrUndefined None \<noteq> Some (JNum (of_nat 0))" by (simp add: valueOrUndefined_def)
  have "commits (Suc 0) = put (\<lambda>i. 1) ''k'' None (Some (JNum (of_nat 0))) None initial"
    using setIfVersion_Json_NotFound[OF nf] currentVersion_NotFound[OF nf] by simp
  then show ?case
    using put_db_changed[OF ne, of "\<lambda>i. 1" "''k''" None initial]
    by (auto simp del: commits.simps)
next
  case (Suc n)
  then obtain d where d: "db (commits (Suc n)) ''k'' = Holds d"
    "StoredDocument.val d = Some (JNum (of_nat n))" "length (patches d) = min (Suc n) 21"
    by blast
  have ne: "valueOrUndefined (Some d) \<noteq> Some (JNum (of_nat (Suc n)))"
    using d(2) by (simp add: valueOrUndefined_def)
  have "commits (Suc (Suc n)) =
          put (\<lambda>i. 1) ''k'' (Some d) (Some (JNum (of_nat (Suc n)))) None (commits (Suc n))"
    using setIfVersion_Json_Holds[OF d(1), of "StoredDocument.version d"]
      currentVersion_Holds[OF d(1)]
    by (simp add: versionsMatch_def)
  then show ?case
    using put_db_changed[OF ne, of "\<lambda>i. 1" "''k''" None "commits (Suc n)"] d(3)
    by (auto simp del: commits.simps)
qed

subsection \<open>The commit path\<close>

text \<open>
  C1. The claim: after every successful commit the stored list of patches has at most
  20 elements, the history being cut to its last 19 before the new patch is appended.
  \<^verbatim>\<open>put\<close> cuts the history with \<^verbatim>\<open>slice(-NUM_PATCHES_TO_KEEP)\<close>, to its last 20, and then
  appends: the client that writes 21 different values under one key leaves 21 patches
  there, one more than \<^verbatim>\<open>NUM_PATCHES_TO_KEEP\<close>.
\<close>

theorem put_keeps_21_patches:
  "(case getWithMeta ''client'' ''k'' (commits 21) of
      Inl e \<Rightarrow> 0
    | Inr None \<Rightarrow> 0
    | Inr (Some d) \<Rightarrow> int (length (patches d))) = 21 \<and>
   NUM_PATCHES_TO_KEEP < 21"
proof -
  have n: "(21::nat) = Suc 20" by simp
  obtain d where "db (commits 21) ''k'' = Holds d" "length (patches d) = min (Suc 20) 21"
    using commits_inv[of 20] unfolding n by blast
  then show ?thesis by (simp add: getWithMeta_def NUM_PATCHES_TO_KEEP_def)
qed

text \<open>
  C2, as amended. A \<^verbatim>\<open>setIfVersion(k, V, v)\<close> whose value passes the check, whose \<open>V\<close>
  matches what the key holds and whose value differs from the one held returns true, and
  the version stored is \<open>(V.major, V.minor + 1)\<close> when the key held a live document; when
  it held a tombstone or nothing, the version stored is \<open>(hrnano(), 1)\<close>.
\<close>

theorem setIfVersion_new_version:
  assumes "getWithMeta debugId k s = Inr prev" and "versionsMatch prev V"
    and "v = Undefined \<or> typeof v \<in> allowedTypes" and "stored v \<noteq> valueOrUndefined prev"
  shows "fst (setIfVersion hrnano debugId k V v options s) = Inr True \<and>
         getWithVersion debugId k (snd (setIfVersion hrnano debugId k V v options s)) =
           Inr \<lparr>VersionedMaybeObject.version =
                  (if isLiveValue prev then \<lparr>major = major V, minor = minor V + 1\<rparr>
                   else \<lparr>major = hrnano 0, minor = 1\<rparr>),
                val = stored v\<rparr>"
proof -
  have ne: "valueOrUndefined prev \<noteq> stored v" using assms(4) by simp
  obtain d' where d': "db (put hrnano k prev (stored v) options s) k = Holds d'"
    "StoredDocument.version d' =
        (if isLiveValue prev then incrVersion (StoredDocument.version (the prev)) 1
         else \<lparr>major = hrnano 0, minor = 1\<rparr>)"
    "StoredDocument.val d' = stored v"
    using put_db_changed[OF ne] by blast
  have live: "isLiveValue prev \<Longrightarrow>
      incrVersion (StoredDocument.version (the prev)) 1 = \<lparr>major = major V, minor = minor V + 1\<rparr>"
    using assms(2) by (cases prev) (simp_all add: isLiveValue_def versionsMatch_def incrVersion_def)
  show ?thesis
    using setIfVersion_checked[OF assms(3) assms(1), of hrnano V options] assms(2) d' live
    by (simp add: getWithVersion_def getWithMeta_def)
qed

theorem setIfVersion_new_version_witness:
  "fst (setIfVersion (\<lambda>i. 9) ''t'' ''a'' \<lparr>major = 5, minor = 1\<rparr> (Json (JNum 2)) None liveAt)
     = Inr True \<and>
   getWithVersion ''t'' ''a''
       (snd (setIfVersion (\<lambda>i. 9) ''t'' ''a'' \<lparr>major = 5, minor = 1\<rparr> (Json (JNum 2)) None liveAt))
     = Inr \<lparr>VersionedMaybeObject.version = \<lparr>major = 5, minor = 2\<rparr>, val = Some (JNum 2)\<rparr>"
  using setIfVersion_new_version[where debugId="''t''" and k="''a''" and s=liveAt
      and prev="Some liveDoc" and V="\<lparr>major = 5, minor = 1\<rparr>"
      and v="Json (JNum 2)" and hrnano="\<lambda>i. 9" and options=None]
  by (simp add: liveAt_eq liveDoc_def getWithMeta_def versionsMatch_def allowedTypes_def
      valueOrUndefined_def isLiveValue_def)

text \<open>
  The claim as the specification words it, with the tombstones included, fails: the key
  \<^verbatim>\<open>a\<close> of \<open>tombstoned\<close> holds a tombstone at version (5, 2); a \<^verbatim>\<open>setIfVersion\<close> at that version
  with the value 7, at clock reading 100, stores the version (100, 1), not (5, 3).
\<close>

theorem setIfVersion_tombstone_counterexample:
  "getWithVersion ''t'' ''a'' tombstoned
     = Inr \<lparr>VersionedMaybeObject.version = \<lparr>major = 5, minor = 2\<rparr>, val = None\<rparr> \<and>
   fst (setIfVersion (\<lambda>i. 100) ''t'' ''a'' \<lparr>major = 5, minor = 2\<rparr> (Json (JNum 7)) None tombstoned)
     = Inr True \<and>
   getWithVersion ''t'' ''a''
       (snd (setIfVersion (\<lambda>i. 100) ''t'' ''a'' \<lparr>major = 5, minor = 2\<rparr> (Json (JNum 7)) None
               tombstoned))
     = Inr \<lparr>VersionedMaybeObject.version = \<lparr>major = 100, minor = 1\<rparr>, val = Some (JNum 7)\<rparr> \<and>
   \<lparr>major = 100, minor = 1\<rparr> \<noteq> \<lparr>major = 5, minor = 2 + (1::int)\<rparr>"
  by (simp add: tombstoned_eq tombDoc_def created_def removed_def setIfVersion_def
      checkValue_Json getWithMeta_def getWithVersion_def
      versionsMatch_def put_def Let_def valueOrUndefined_def compare_def slice_def
      NUM_PATCHES_TO_KEEP_def)

text \<open>
  C3. When a key holds a live document with the value \<open>a\<close>, and \<open>b\<close> is structurally equal
  to \<open>a\<close>, \<^verbatim>\<open>setIfVersion\<close> at the current version with the value \<open>b\<close> writes nothing: the
  whole state, the stored document and the list of the events sent, is the one before.
\<close>

theorem setIfVersion_equal_value_no_write:
  assumes "db s k = Holds d" and "StoredDocument.val d = Some a" and "a = b"
  shows "setIfVersion hrnano debugId k (StoredDocument.version d) (Json b) options s = (Inr True, s)"
proof -
  have g: "getWithMeta debugId k s = Inr (Some d)"
    using assms(1) by (simp add: getWithMeta_def)
  have m: "versionsMatch (Some d) (StoredDocument.version d)"
    by (simp add: versionsMatch_def)
  have "valueOrUndefined (Some d) = stored (Json b)"
    using assms(2,3) by (simp add: valueOrUndefined_def)
  then have "put hrnano k (Some d) (stored (Json b)) options s = s"
    by (rule put_unchanged)
  then show ?thesis
    by (simp add: setIfVersion_def checkValue_Json g m)
qed

theorem setIfVersion_equal_value_no_write_witness:
  "setIfVersion (\<lambda>i. 9) ''t'' ''a'' \<lparr>major = 5, minor = 1\<rparr> (Json (JNum 1)) None liveAt
     = (Inr True, liveAt)"
  using setIfVersion_equal_value_no_write[where s=liveAt and k="''a''" and a="JNum 1"
      and b="JNum 1" and d="liveDoc" and hrnano="\<lambda>i. 9"
      and debugId="''t''" and options=None]
  by (simp add: liveAt_eq liveDoc_def)

text \<open>
  C4. When the expected version does not match what the key holds (nothing held matches
  (0, 0) only), \<^verbatim>\<open>setIfVersion\<close> returns false, raises nothing and leaves the state as it
  was. The value is one that \<^verbatim>\<open>setIfVersion\<close> takes: \<^verbatim>\<open>undefined\<close> or a value of an allowed type.
\<close>

theorem setIfVersion_mismatch:
  assumes "getWithMeta debugId k s = Inr prev" and "\<not> versionsMatch prev V"
    and "v = Undefined \<or> typeof v \<in> allowedTypes"
  shows "setIfVersion hrnano debugId k V v options s = (Inr False, s)"
  using setIfVersion_checked[OF assms(3) assms(1)] assms(2) by simp

theorem setIfVersion_mismatch_witness:
  "setIfVersion (\<lambda>i. 9) ''t'' ''a'' \<lparr>major = 5, minor = 7\<rparr> (Json (JNum 2)) None liveAt
     = (Inr False, liveAt) \<and>
   setIfVersion (\<lambda>i. 9) ''t'' ''b'' \<lparr>major = 0, minor = 1\<rparr> Undefined None liveAt
     = (Inr False, liveAt)"
  using setIfVersion_mismatch[where s=liveAt and k="''a''" and V="\<lparr>major = 5, minor = 7\<rparr>"
      and v="Json (JNum 2)"
      and prev="Some liveDoc" and hrnano="\<lambda>i. 9"
      and debugId="''t''" and options=None]
    setIfVersion_mismatch[where s=liveAt and k="''b''" and V="\<lparr>major = 0, minor = 1\<rparr>"
      and v="Undefined" and prev="None" and hrnano="\<lambda>i. 9" and debugId="''t''" and options=None]
  by (simp add: liveAt_eq liveDoc_def getWithMeta_def versionsMatch_def allowedTypes_def)

text \<open>
  C5. \<^verbatim>\<open>create\<close> with a value of an allowed type returns false and leaves the state as it
  was when the key holds a live document; when the key holds nothing or a tombstone it
  returns true, and the key then holds the value at the version \<open>(hrnano(), 1)\<close>.
\<close>

theorem create_live_or_not:
  assumes "typeof v \<in> allowedTypes" and "getWithMeta debugId k s = Inr prev"
  shows "(isLiveValue prev \<longrightarrow> create hrnano debugId k v s = (Inr False, s)) \<and>
         (\<not> isLiveValue prev \<longrightarrow>
            fst (create hrnano debugId k v s) = Inr True \<and>
            stored v \<noteq> None \<and>
            getWithVersion debugId k (snd (create hrnano debugId k v s)) =
              Inr \<lparr>VersionedMaybeObject.version = \<lparr>major = hrnano 0, minor = 1\<rparr>,
                   val = stored v\<rparr>)"
proof -
  obtain j where j: "v = Json j" using allowed_is_Json[OF assms(1)] by blast
  have c: "create hrnano debugId k v s =
      (if isLiveValue prev then (Inr False, s)
       else (Inr True, put hrnano k prev (stored v) None s))"
    using assms by (simp add: create_def checkValue_allowed)
  have ne: "\<not> isLiveValue prev \<Longrightarrow> valueOrUndefined prev \<noteq> stored v"
    using j by (cases prev) (simp_all add: isLiveValue_def valueOrUndefined_def)
  show ?thesis
  proof (cases "isLiveValue prev")
    case True
    then show ?thesis using c by simp
  next
    case False
    obtain d' where "db (put hrnano k prev (stored v) None s) k = Holds d'"
      "StoredDocument.version d' = \<lparr>major = hrnano 0, minor = 1\<rparr>"
      "StoredDocument.val d' = stored v"
      using put_db_changed[OF ne[OF False], of hrnano k None s] False by auto
    then show ?thesis using c False j
      by (simp add: getWithVersion_def getWithMeta_def)
  qed
qed

theorem create_live_or_not_witness:
  "create (\<lambda>i. 9) ''t'' ''a'' (Json (JNum 3)) liveAt = (Inr False, liveAt) \<and>
   fst (create (\<lambda>i. 9) ''t'' ''a'' (Json (JNum 3)) tombstoned) = Inr True \<and>
   getWithVersion ''t'' ''a'' (snd (create (\<lambda>i. 9) ''t'' ''a'' (Json (JNum 3)) tombstoned)) =
     Inr \<lparr>VersionedMaybeObject.version = \<lparr>major = 9, minor = 1\<rparr>, val = Some (JNum 3)\<rparr> \<and>
   fst (create (\<lambda>i. 9) ''t'' ''b'' (Json (JNum 3)) tombstoned) = Inr True \<and>
   getWithVersion ''t'' ''b'' (snd (create (\<lambda>i. 9) ''t'' ''b'' (Json (JNum 3)) tombstoned)) =
     Inr \<lparr>VersionedMaybeObject.version = \<lparr>major = 9, minor = 1\<rparr>, val = Some (JNum 3)\<rparr>"
  using create_live_or_not[where s=liveAt and k="''a''" and v="Json (JNum 3)"
      and prev="Some liveDoc" and hrnano="\<lambda>i. 9" and debugId="''t''"]
    create_live_or_not[where s=tombstoned and k="''a''" and v="Json (JNum 3)"
      and prev="Some tombDoc" and hrnano="\<lambda>i. 9" and debugId="''t''"]
    create_live_or_not[where s=tombstoned and k="''b''" and v="Json (JNum 3)"
      and prev="None" and hrnano="\<lambda>i. 9" and debugId="''t''"]
  by (simp add: liveAt_eq liveDoc_def tombstoned_eq tombDoc_def getWithMeta_def isLiveValue_def
      allowedTypes_def)

text \<open>
  C6, as amended. For a value whose \<^verbatim>\<open>typeof\<close> is none of object, boolean, number and
  string (\<^verbatim>\<open>undefined\<close>, a bigint, a symbol, a function), \<^verbatim>\<open>create\<close> raises the type error and
  leaves the state as it was, and so does \<^verbatim>\<open>setIfVersion\<close> unless the value is \<^verbatim>\<open>undefined\<close>,
  which it takes as the removal of the document at the expected version. Every JSON
  value passes the check, a bare \<^verbatim>\<open>null\<close> included: its \<^verbatim>\<open>typeof\<close> is object.
\<close>

theorem checkValue_rejects:
  assumes "typeof v \<notin> allowedTypes"
  shows "create hrnano debugId k v s =
           (Inl (TypeError (''Non-JSONable value of type '' @ typeof v @ '' at top level'')), s) \<and>
         setIfVersion hrnano debugId k V v options s =
           (if v = Undefined
            then (case getWithMeta debugId k s of
                    Inl e \<Rightarrow> (Inl e, s)
                  | Inr prev \<Rightarrow>
                      if versionsMatch prev V then (Inr True, put hrnano k prev None options s)
                      else (Inr False, s))
            else (Inl (TypeError (''Non-JSONable value of type '' @ typeof v @ '' at top level'')),
                  s)) \<and>
         checkValue (Json j) = Inr ()"
proof -
  have c: "checkValue v =
      Inl (TypeError (''Non-JSONable value of type '' @ typeof v @ '' at top level''))"
    using assms by (simp add: checkValue_def)
  have "create hrnano debugId k v s =
      (Inl (TypeError (''Non-JSONable value of type '' @ typeof v @ '' at top level'')), s)"
    by (simp add: create_def c)
  moreover have "setIfVersion hrnano debugId k V v options s =
           (if v = Undefined
            then (case getWithMeta debugId k s of
                    Inl e \<Rightarrow> (Inl e, s)
                  | Inr prev \<Rightarrow>
                      if versionsMatch prev V then (Inr True, put hrnano k prev None options s)
                      else (Inr False, s))
            else (Inl (TypeError (''Non-JSONable value of type '' @ typeof v @ '' at top level'')),
                  s))"
    by (auto simp add: setIfVersion_def c split: sum.splits)
  ultimately show ?thesis by (simp add: checkValue_Json)
qed

theorem checkValue_rejects_witness:
  "create (\<lambda>i. 5) ''t'' ''a'' Undefined liveAt =
     (Inl (TypeError ''Non-JSONable value of type undefined at top level''), liveAt) \<and>
   create (\<lambda>i. 5) ''t'' ''a'' (Function ''f'') liveAt =
     (Inl (TypeError ''Non-JSONable value of type function at top level''), liveAt) \<and>
   setIfVersion (\<lambda>i. 5) ''t'' ''a'' \<lparr>major = 5, minor = 1\<rparr> (BigInt 3) None liveAt =
     (Inl (TypeError ''Non-JSONable value of type bigint at top level''), liveAt) \<and>
   checkValue (Json JNull) = Inr ()"
  using checkValue_rejects[where v=Undefined and hrnano="\<lambda>i. 5" and debugId="''t''"
      and k="''a''" and s=liveAt and j=JNull]
    checkValue_rejects[where v="Function ''f''" and hrnano="\<lambda>i. 5" and debugId="''t''"
      and k="''a''" and s=liveAt]
    checkValue_rejects[where v="BigInt 3" and hrnano="\<lambda>i. 5" and debugId="''t''" and k="''a''"
      and s=liveAt and V="\<lparr>major = 5, minor = 1\<rparr>" and options=None]
  by (simp add: allowedTypes_def)

text \<open>
  The claim as the specification words it fails for a bare \<^verbatim>\<open>null\<close> and, in
  \<^verbatim>\<open>setIfVersion\<close>, for \<^verbatim>\<open>undefined\<close>: on the empty handler \<^verbatim>\<open>create('a', null)\<close> returns true and
  the key then reads null, \<^verbatim>\<open>setIfVersion('a', (0, 0), null)\<close> returns true, and
  \<^verbatim>\<open>setIfVersion('a', (0, 0), undefined)\<close> returns true.
\<close>

theorem checkValue_null_counterexample:
  "fst (create (\<lambda>i. 5) ''t'' ''a'' (Json JNull) initial) = Inr True \<and>
   get ''t'' ''a'' (snd (create (\<lambda>i. 5) ''t'' ''a'' (Json JNull) initial)) = Inr (Some JNull) \<and>
   fst (setIfVersion (\<lambda>i. 5) ''t'' ''a'' \<lparr>major = 0, minor = 0\<rparr> (Json JNull) None initial)
     = Inr True \<and>
   setIfVersion (\<lambda>i. 5) ''t'' ''a'' \<lparr>major = 0, minor = 0\<rparr> Undefined None initial
     = (Inr True, initial)"
  by (simp add: create_def setIfVersion_def checkValue_Json getWithMeta_def initial_def get_def
      isLiveValue_def versionsMatch_def put_def Let_def valueOrUndefined_def compare_def slice_def
      NUM_PATCHES_TO_KEEP_def)

text \<open>
  C10. For a key that holds a tombstone, \<^verbatim>\<open>getWithVersion\<close> gives the tombstone's own
  version and no value; in a state that the handler has reached from the empty
  database that version is not (0, 0). A key that holds nothing gives (0, 0), and in a
  reachable state only such a key does.
\<close>

theorem getWithVersion_tombstone:
  "(db s k = Holds d \<and> StoredDocument.val d = None \<longrightarrow>
      getWithVersion debugId k s =
        Inr \<lparr>VersionedMaybeObject.version = StoredDocument.version d, val = None\<rparr> \<and>
      (reachable s \<longrightarrow> StoredDocument.version d \<noteq> \<lparr>major = 0, minor = 0\<rparr>)) \<and>
   (db s k = NotFound \<longrightarrow>
      getWithVersion debugId k s =
        Inr \<lparr>VersionedMaybeObject.version = \<lparr>major = 0, minor = 0\<rparr>, val = None\<rparr>) \<and>
   (reachable s \<and> getWithVersion debugId k s = Inr r \<and>
    VersionedMaybeObject.version r = \<lparr>major = 0, minor = 0\<rparr> \<longrightarrow> db s k = NotFound)"
proof -
  have nz: "reachable s \<Longrightarrow> db s k = Holds d' \<Longrightarrow>
      StoredDocument.version d' \<noteq> \<lparr>major = 0, minor = 0\<rparr>" for d'
    using reachable_wellFormed[of s k d'] by (auto simp add: wellFormed_def)
  have "reachable s \<Longrightarrow> getWithVersion debugId k s = Inr r \<Longrightarrow>
      VersionedMaybeObject.version r = \<lparr>major = 0, minor = 0\<rparr> \<Longrightarrow> db s k = NotFound"
    using nz by (cases "db s k") (auto simp add: getWithVersion_def getWithMeta_def)
  then show ?thesis
    using nz[of d] by (auto simp add: getWithVersion_def getWithMeta_def)
qed

theorem getWithVersion_tombstone_witness:
  "reachable tombstoned \<and>
   getWithVersion ''t'' ''a'' tombstoned =
      Inr \<lparr>VersionedMaybeObject.version = \<lparr>major = 5, minor = 2\<rparr>, val = None\<rparr> \<and>
   \<lparr>major = 5, minor = 2\<rparr> \<noteq> \<lparr>major = 0, minor = (0::int)\<rparr> \<and>
   getWithVersion ''t'' ''b'' tombstoned =
      Inr \<lparr>VersionedMaybeObject.version = \<lparr>major = 0, minor = 0\<rparr>, val = None\<rparr> \<and>
   db tombstoned ''b'' = NotFound"
proof -
  have r: "reachable tombstoned"
    unfolding tombstoned_def
    unfolding liveAt_def
    by (intro reachable_remove reachable_create reachable_initial)
  have g: "getWithVersion ''t'' ''b'' tombstoned =
      Inr \<lparr>VersionedMaybeObject.version = \<lparr>major = 0, minor = 0\<rparr>, val = None\<rparr>"
    by (simp add: tombstoned_eq tombDoc_def created_def removed_def getWithVersion_def
        getWithMeta_def)
  show ?thesis
    using r g
      getWithVersion_tombstone[where s=tombstoned and k="''a''" and debugId="''t''" and
        d="tombDoc"]
      getWithVersion_tombstone[where s=tombstoned and k="''b''" and debugId="''t''"
        and r="\<lparr>VersionedMaybeObject.version = \<lparr>major = 0, minor = 0\<rparr>, val = None\<rparr>"]
    by (simp add: tombstoned_eq tombDoc_def created_def removed_def)
qed

subsection \<open>Polling\<close>

lemma promiseAll_none:
  "(\<forall>x \<in> set xs. f x = Inr None) \<Longrightarrow> promiseAll (map f xs) = Inr (map (\<lambda>x. None) xs)"
  by (induction xs) simp_all

lemma map_filter_none: "List.map_filter id (map (\<lambda>x. None) xs) = []"
  by (induction xs) (simp_all add: List.map_filter_simps)

lemma resolved_none:
  "(\<forall>e \<in> set live. patchHandler kvs (fst e) (snd e) = None) \<Longrightarrow> resolved kvs live = None"
  by (induction live) auto

lemma scanKey_none:
  assumes "getWithMeta debugId (fst kv) s = Inr prev"
    and "\<forall>d p. prev = Some d \<and> p \<in> set (patches d) \<longrightarrow> \<not> isGreaterVersion (Patch.version p) (snd kv)"
  shows "scanKey debugId s kv = Inr None"
proof (cases prev)
  case None
  then show ?thesis using assms(1) by (simp add: scanKey_def)
next
  case (Some d)
  then have "filter (\<lambda>patch. isGreaterVersion (Patch.version patch) (snd kv)) (patches d) = []"
    using assms(2) by (simp add: filter_empty_conv)
  then show ?thesis using assms(1) Some by (simp add: scanKey_def)
qed

text \<open>
  C9. When the scan reads every subscribed key and finds no stored patch above the
  version the caller gave for it, and the listener resolves nothing on any event sent
  while \<^verbatim>\<open>poll\<close> waits, \<^verbatim>\<open>poll\<close> returns the empty list if the error that ends the wait is
  named \<^verbatim>\<open>TimeoutError\<close>, and raises that error if it has another name.
\<close>

theorem poll_timeout_empty:
  assumes "\<forall>kv \<in> set keysToVersions. \<exists>prev. getWithMeta debugId (fst kv) s = Inr prev \<and>
             (\<forall>d p. prev = Some d \<and> p \<in> set (patches d) \<longrightarrow>
                      \<not> isGreaterVersion (Patch.version p) (snd kv))"
    and "\<forall>e \<in> set live. patchHandler keysToVersions (fst e) (snd e) = None"
  shows "poll debugId keysToVersions live rejection s =
           (if error_name rejection = ''TimeoutError'' then Inr [] else Inl rejection)"
proof -
  have "\<forall>kv \<in> set keysToVersions. scanKey debugId s kv = Inr None"
    using assms(1) scanKey_none by blast
  then have "promiseAll (map (scanKey debugId s) keysToVersions) =
      Inr (map (\<lambda>x. None) keysToVersions)"
    by (rule promiseAll_none)
  then show ?thesis
    using resolved_none[OF assms(2)] by (simp add: poll_def map_filter_none)
qed

theorem poll_timeout_empty_witness:
  "poll ''t'' [(''a'', \<lparr>major = 5, minor = 2\<rparr>), (''b'', \<lparr>major = 0, minor = 0\<rparr>)]
     [(''c'', \<lparr>Patch.version = \<lparr>major = 9, minor = 1\<rparr>, ops = [Add ''/root'' JNull], extra = []\<rparr>),
      (''a'', removed)]
     (Thrown ''TimeoutError'' ''timed out'') tombstoned = Inr [] \<and>
   poll ''t'' [(''a'', \<lparr>major = 5, minor = 2\<rparr>), (''b'', \<lparr>major = 0, minor = 0\<rparr>)]
     [(''c'', \<lparr>Patch.version = \<lparr>major = 9, minor = 1\<rparr>, ops = [Add ''/root'' JNull], extra = []\<rparr>),
      (''a'', removed)]
     (Thrown ''RangeError'' ''bad delay'') tombstoned = Inl (Thrown ''RangeError'' ''bad delay'')"
proof -
  let ?kvs = "[(''a'', \<lparr>major = 5, minor = 2\<rparr>), (''b'', \<lparr>major = 0, minor = (0::int)\<rparr>)]"
  let ?live = "[(''c'', \<lparr>Patch.version = \<lparr>major = 9, minor = 1\<rparr>, ops = [Add ''/root'' JNull], extra = []\<rparr>),
      (''a'', removed)]"
  have scan: "\<forall>kv \<in> set ?kvs. \<exists>prev. getWithMeta ''t'' (fst kv) tombstoned = Inr prev \<and>
             (\<forall>d p. prev = Some d \<and> p \<in> set (patches d) \<longrightarrow>
                      \<not> isGreaterVersion (Patch.version p) (snd kv))"
    by (auto simp add: tombstoned_eq tombDoc_def created_def removed_def getWithMeta_def
        isGreaterVersion_def)
  have live: "\<forall>e \<in> set ?live. patchHandler ?kvs (fst e) (snd e) = None"
    by (simp add: patchHandler_def isGreaterVersion_def removed_def)
  show ?thesis
    using poll_timeout_empty[OF scan live, of "Thrown ''TimeoutError'' ''timed out''"]
      poll_timeout_empty[OF scan live, of "Thrown ''RangeError'' ''bad delay''"]
    by simp
qed

subsection \<open>Queries\<close>

lemma strictEquals_primitive: "strictEquals x v \<longleftrightarrow> isPrimitive v \<and> x = Val v"
proof (cases x)
  case Undef
  then show ?thesis by simp
next
  case (Val a)
  then show ?thesis by (cases a; cases v) auto
next
  case (Foreign t)
  then show ?thesis by simp
qed

text \<open>
  C7, as amended. On a document that \<^verbatim>\<open>find\<close> has read, an \<^verbatim>\<open>eq\<close> filter is true iff the
  operand is a primitive value (null, a boolean, a number or a string) and the value at
  the filter's path is structurally equal to it; an \<^verbatim>\<open>ne\<close> filter is true iff the \<^verbatim>\<open>eq\<close>
  filter is not. When the operand is an object or an array, \<^verbatim>\<open>eq\<close> is false and \<^verbatim>\<open>ne\<close> is
  true for every document.
\<close>

theorem match_eq_ne_strict:
  "match R doc (Op_eq p v) =
     Inr (Some (isPrimitive v \<and> path R p (Val (docObject doc)) = Val v)) \<and>
   match R doc (Op_ne p v) =
     Inr (Some (\<not> (isPrimitive v \<and> path R p (Val (docObject doc)) = Val v))) \<and>
   wrappedMatch R doc (Op_eq p v) =
     Inr (isPrimitive v \<and> path R p (Val (docObject doc)) = Val v) \<and>
   wrappedMatch R doc (Op_ne p v) =
     Inr (\<not> (isPrimitive v \<and> path R p (Val (docObject doc)) = Val v))"
proof -
  have identical: "strictEquals (path R p (Val (docObject doc))) v \<longleftrightarrow>
      isPrimitive v \<and> path R p (Val (docObject doc)) = Val v"
    by (rule strictEquals_primitive)
  have "match R doc (Op_eq p v) =
      Inr (Some (isPrimitive v \<and> path R p (Val (docObject doc)) = Val v))"
    by (simp add: identical)
  moreover have "match R doc (Op_ne p v) =
      Inr (Some (\<not> (isPrimitive v \<and> path R p (Val (docObject doc)) = Val v)))"
    by (simp add: identical)
  ultimately show ?thesis by simp
qed

text \<open>
  The claim as the specification words it fails on composite values: in the document
  \<open>tagged\<close> the value at the path \<^verbatim>\<open>value.tags\<close> is the array \<^verbatim>\<open>[1]\<close>, structurally equal to
  the operand \<^verbatim>\<open>[1]\<close>, and yet \<^verbatim>\<open>eq\<close> is false and \<^verbatim>\<open>ne\<close> is true.
\<close>

theorem match_eq_composite_counterexample:
  "path plainRuntime [Name ''value'', Name ''tags''] (Val (docObject tagged))
     = Val (JArr [JNum 1]) \<and>
   wrappedMatch plainRuntime tagged (Op_eq [Name ''value'', Name ''tags''] (JArr [JNum 1]))
     = Inr False \<and>
   wrappedMatch plainRuntime tagged (Op_ne [Name ''value'', Name ''tags''] (JArr [JNum 1]))
     = Inr True"
  by (simp add: tagged_def docObject_def getProp_def)
































end
